theory Spec2Isabelle
  imports Main "HOL-Library.Sublist"
begin

section \<open>Python values and strings\<close>

text \<open>
  The server handles decoded JSON trees (\<open>Dict[str, Any]\<close>) and Python strings.
  A string is a list of characters; one \<open>char\<close> stands for one character of the
  Python string (the code only compares characters with the newline, \<open>=\<close> and \<open>/\<close>).
  A dictionary is an association list read with \<open>map_of\<close>.  JSON floats are left
  out: no function below computes with numbers.
\<close>

datatype pyval =
    PNone
  | PBool bool
  | PInt int
  | PStr string
  | PBytes string
  | PList "pyval list"
  | PDict "(string \<times> pyval) list"

datatype exn =
    HTTPStatusError nat "pyval option"
  | TimeoutException
  | ValueError string
  | FileNotFoundError
  | AttributeError
  | TypeError
  | KeyError
  | IndexError
  | OtherError string

text \<open>\<open>HTTPStatusError status body\<close>: \<open>e.response.status_code\<close> and the result of
  \<open>e.response.json()\<close> (\<open>None\<close> when that call raises).\<close>

abbreviation nl :: char where
  "nl \<equiv> CHR 0x0A"

text \<open>Python's truth value of an object (\<open>if x:\<close>, \<open>not x\<close>, \<open>x or y\<close>).\<close>

fun truthy :: "pyval \<Rightarrow> bool" where
  "truthy PNone = False"
| "truthy (PBool b) = b"
| "truthy (PInt i) = (i \<noteq> 0)"
| "truthy (PStr s) = (s \<noteq> [])"
| "truthy (PBytes s) = (s \<noteq> [])"
| "truthy (PList xs) = (xs \<noteq> [])"
| "truthy (PDict kvs) = (kvs \<noteq> [])"

text \<open>Truth value of an \<open>Optional[str]\<close>.\<close>

fun truthy_opt :: "string option \<Rightarrow> bool" where
  "truthy_opt None = False"
| "truthy_opt (Some s) = (s \<noteq> [])"

definition dict_get :: "(string \<times> pyval) list \<Rightarrow> string \<Rightarrow> pyval option" where
  "dict_get d k = map_of d k"

text \<open>\<open>d.get(k, default)\<close>.\<close>

definition dict_get_default :: "(string \<times> pyval) list \<Rightarrow> string \<Rightarrow> pyval \<Rightarrow> pyval" where
  "dict_get_default d k dflt = (case dict_get d k of Some v \<Rightarrow> v | None \<Rightarrow> dflt)"

text \<open>\<open>x.get(k, default)\<close> on any object: only a dictionary has \<open>get\<close>.\<close>

fun py_get :: "pyval \<Rightarrow> string \<Rightarrow> pyval \<Rightarrow> exn + pyval" where
  "py_get (PDict d) k dflt = Inr (dict_get_default d k dflt)"
| "py_get _ k dflt = Inl AttributeError"

text \<open>\<open>for x in v\<close>: the elements a loop over \<open>v\<close> visits.\<close>

fun py_iter :: "pyval \<Rightarrow> exn + pyval list" where
  "py_iter (PList xs) = Inr xs"
| "py_iter (PStr s) = Inr (map (\<lambda>c. PStr [c]) s)"
| "py_iter (PBytes s) = Inr (map (\<lambda>c. PInt (of_char c)) s)"
| "py_iter (PDict kvs) = Inr (map PStr (remdups (map fst kvs)))"
| "py_iter _ = Inl TypeError"

text \<open>\<open>v[0]\<close>.\<close>

fun py_index0 :: "pyval \<Rightarrow> exn + pyval" where
  "py_index0 (PList []) = Inl IndexError"
| "py_index0 (PList (x # xs)) = Inr x"
| "py_index0 (PStr []) = Inl IndexError"
| "py_index0 (PStr (c # cs)) = Inr (PStr [c])"
| "py_index0 (PBytes []) = Inl IndexError"
| "py_index0 (PBytes (c # cs)) = Inr (PInt (of_char c))"
| "py_index0 (PDict kvs) = Inl KeyError"
| "py_index0 _ = Inl TypeError"

text \<open>\<open>len(v)\<close>.\<close>

fun py_len :: "pyval \<Rightarrow> exn + nat" where
  "py_len (PStr s) = Inr (length s)"
| "py_len (PBytes s) = Inr (length s)"
| "py_len (PList xs) = Inr (length xs)"
| "py_len (PDict kvs) = Inr (length (remdups (map fst kvs)))"
| "py_len _ = Inl TypeError"

subsection \<open>Decimal rendering, \<open>split\<close> and \<open>join\<close>\<close>

definition digit :: "nat \<Rightarrow> char" where
  "digit n = char_of (48 + n)"

function str_nat :: "nat \<Rightarrow> string" where
  "str_nat n = (if n < 10 then [digit n] else str_nat (n div 10) @ [digit (n mod 10)])"
  by pat_completeness auto
termination
  by (relation "measure (\<lambda>n. n)") auto

declare str_nat.simps [simp del]

definition str_int :: "int \<Rightarrow> string" where
  "str_int i = (if i < 0 then CHR ''-'' # str_nat (nat (- i)) else str_nat (nat i))"

text \<open>\<open>s.split(c)\<close> for a one-character separator: never empty.\<close>

fun split_on :: "char \<Rightarrow> string \<Rightarrow> string list" where
  "split_on c [] = [[]]"
| "split_on c (x # xs) =
     (if x = c then [] # split_on c xs
      else (case split_on c xs of
              [] \<Rightarrow> [[x]]
            | y # ys \<Rightarrow> (x # y) # ys))"

text \<open>\<open>sep.join(xs)\<close>.\<close>

fun join :: "string \<Rightarrow> string list \<Rightarrow> string" where
  "join sep [] = []"
| "join sep [x] = x"
| "join sep (x # y # ys) = x @ sep @ join sep (y # ys)"

text \<open>\<open>s.endswith('/')\<close>.\<close>

definition endswith_slash :: "string \<Rightarrow> bool" where
  "endswith_slash s = (s \<noteq> [] \<and> last s = CHR ''/'')"

text \<open>
  \<open>str(v)\<close>.  Strings, \<open>None\<close>, booleans and integers are rendered as Python does;
  the rendering of containers and byte strings (\<open>repr\<close>) is the parameter \<open>rp\<close>.
\<close>

fun py_str :: "(pyval \<Rightarrow> string) \<Rightarrow> pyval \<Rightarrow> string" where
  "py_str rp (PStr s) = s"
| "py_str rp PNone = ''None''"
| "py_str rp (PBool b) = (if b then ''True'' else ''False'')"
| "py_str rp (PInt i) = str_int i"
| "py_str rp v = rp v"

section \<open>Attribute model\<close>

text \<open>
  \<open>_extract_attr_value(item, attr_name, default)\<close>: the direct key first, then the
  \<open>Attrs\<close> array.  The loop over \<open>attrs\<close> is \<open>scan_attrs\<close>.
\<close>

fun scan_attrs :: "pyval list \<Rightarrow> string \<Rightarrow> string \<Rightarrow> exn + pyval" where
  "scan_attrs [] attr_name dflt = Inr (PStr dflt)"
| "scan_attrs (attr # rest) attr_name dflt =
     (case py_get attr ''Name'' PNone of
        Inl e \<Rightarrow> Inl e
      | Inr nm \<Rightarrow>
          if nm = PStr attr_name then
            (case py_get attr ''Values'' (PList []) of
               Inl e \<Rightarrow> Inl e
             | Inr vals \<Rightarrow> if truthy vals then py_index0 vals else Inr (PStr dflt))
          else scan_attrs rest attr_name dflt)"

text \<open>
  \<open>item\<close> is annotated \<open>Dict[str, Any]\<close>, but the list formatters pass whatever the
  remote array holds.  On a list or a string both \<open>attr_name in item\<close> succeeds and the
  following \<open>item.get\<close> raises; the other values are not iterable.
\<close>

fun extract_attr_value ::
  "(pyval \<Rightarrow> string) \<Rightarrow> pyval \<Rightarrow> string \<Rightarrow> string \<Rightarrow> exn + pyval" where
  "extract_attr_value rp (PDict item) attr_name dflt =
     (case dict_get item attr_name of
        Some v \<Rightarrow> Inr (PStr (py_str rp v))
      | None \<Rightarrow>
          (case py_iter (dict_get_default item ''Attrs'' (PList [])) of
             Inl e \<Rightarrow> Inl e
           | Inr attrs \<Rightarrow> scan_attrs attrs attr_name dflt))"
| "extract_attr_value rp (PList xs) attr_name dflt = Inl AttributeError"
| "extract_attr_value rp (PStr s) attr_name dflt = Inl AttributeError"
| "extract_attr_value rp item attr_name dflt = Inl TypeError"

section \<open>Truncation\<close>

definition CHARACTER_LIMIT :: nat where
  "CHARACTER_LIMIT = 25000"

definition truncation_msg :: "nat \<Rightarrow> nat \<Rightarrow> string \<Rightarrow> string" where
  "truncation_msg truncated_count n item_type =
     [nl, nl] @ ''---'' @ [nl] @ ''**TRUNCATED**: Response too large. ''
     @ ''Showing approximately '' @ str_nat truncated_count @ '' of '' @ str_nat n
     @ '' '' @ item_type @ ''. ''
     @ ''Use pagination parameters (initial/final) or add filters to see more results.''"

definition check_truncation :: "string \<Rightarrow> 'a list \<Rightarrow> string \<Rightarrow> string" where
  "check_truncation result data item_type =
     (if length result > CHARACTER_LIMIT then
        (let truncated_count = max 1 (length data div 2);
             result_lines = split_on nl result;
             estimated_lines = length result_lines div 2;
             truncated_result = join [nl] (take estimated_lines result_lines)
         in truncated_result @ truncation_msg truncated_count (length data) item_type)
      else result)"

section \<open>Session state and transport\<close>

text \<open>
  The module globals \<open>_auth_token\<close>, \<open>_base_url\<close>, \<open>_default_username\<close> and
  \<open>_default_password\<close>.  \<open>requests\<close> records every HTTP request sent so far, oldest
  first; the code has no such variable, it is what the network has seen.
\<close>

record request =
  rq_method :: string
  rq_url :: string
  rq_headers :: "(string \<times> string) list"
  rq_json :: "pyval option"
  rq_params :: "(string \<times> string) list"
  rq_files :: "(string \<times> string \<times> string) list"
  rq_data :: "(string \<times> string) list"

record session =
  auth_token :: pyval
  base_url :: string
  default_username :: "string option"
  default_password :: "string option"
  requests :: "request list"

text \<open>
  What \<open>httpx\<close> hands back for one request: an exception raised by the client, or a
  response.  \<open>json_body\<close> is the result of \<open>response.json()\<close>, \<open>content_type\<close> the
  value of \<open>response.headers.get("content-type", "")\<close>.
\<close>

record response =
  status_code :: nat
  content_type :: string
  content :: string
  json_body :: "exn + pyval"

datatype transport = Raises exn | Responds response

text \<open>
  The surroundings of the program: the remote service (its answer may depend on the
  requests it has already seen), the local file system, and the library functions
  \<open>repr\<close>, \<open>json.dumps(x)\<close>, \<open>json.dumps(x, indent=2)\<close> and \<open>str(e)\<close>.
\<close>

record env =
  remote :: "request list \<Rightarrow> request \<Rightarrow> transport"
  read_file :: "string \<Rightarrow> exn + string"
  repr :: "pyval \<Rightarrow> string"
  json_dumps :: "pyval \<Rightarrow> exn + string"
  json_dumps_indent :: "pyval \<Rightarrow> exn + string"
  exn_str :: "exn \<Rightarrow> string"

definition ebind :: "exn + 'a \<Rightarrow> ('a \<Rightarrow> exn + 'b) \<Rightarrow> exn + 'b" where
  "ebind m f = (case m of Inl e \<Rightarrow> Inl e | Inr x \<Rightarrow> f x)"

text \<open>\<open>response.raise_for_status()\<close>: \<open>httpx\<close> raises unless the status is 2xx.\<close>

definition is_success :: "nat \<Rightarrow> bool" where
  "is_success st = (200 \<le> st \<and> st < 300)"

definition raise_for_status :: "response \<Rightarrow> exn + response" where
  "raise_for_status r =
     (if is_success (status_code r) then Inr r
      else Inl (HTTPStatusError (status_code r)
                  (case json_body r of Inl e \<Rightarrow> None | Inr v \<Rightarrow> Some v)))"

definition get_auth_headers :: "env \<Rightarrow> session \<Rightarrow> exn + (string \<times> string) list" where
  "get_auth_headers ev st =
     (if \<not> truthy (auth_token st) then
        Inl (ValueError ''Not authenticated. Please login first using openprodoc_login.'')
      else
        ebind (py_len (auth_token st)) (\<lambda>n.
          Inr [(''Authorization'', ''Bearer '' @ py_str (repr ev) (auth_token st)),
               (''Accept'', ''application/json'')]))"

text \<open>
  \<open>_make_api_request\<close>.  The three \<open>except\<close> clauses only log and re-raise.  Calls
  of the logger are left out throughout, except the two that can raise: they take
  \<open>len\<close> of the stored token.
\<close>

definition make_api_request ::
  "env \<Rightarrow> session \<Rightarrow> string \<Rightarrow> string \<Rightarrow> (string \<times> string) list \<Rightarrow> pyval option \<Rightarrow>
   (string \<times> string) list \<Rightarrow> (string \<times> string \<times> string) list \<Rightarrow> (string \<times> string) list \<Rightarrow>
   (exn + pyval) \<times> session" where
  "make_api_request ev st endpoint method hdrs json_data params files data =
     (let url = base_url st @ ''/'' @ endpoint;
          rq = \<lparr>rq_method = method, rq_url = url, rq_headers = hdrs, rq_json = json_data,
                rq_params = params, rq_files = files, rq_data = data\<rparr>;
          st' = st\<lparr>requests := requests st @ [rq]\<rparr>
      in (case remote ev (requests st) rq of
            Raises e \<Rightarrow> Inl e
          | Responds r \<Rightarrow>
              ebind (raise_for_status r) (\<lambda>r.
                if \<not> sublist ''application/json'' (content_type r)
                then Inr (PDict [(''binary_content'', PBytes (content r))])
                else json_body r),
          st'))"

section \<open>Error formatting\<close>

fun exn_name :: "exn \<Rightarrow> string" where
  "exn_name (HTTPStatusError c b) = ''HTTPStatusError''"
| "exn_name TimeoutException = ''TimeoutException''"
| "exn_name (ValueError m) = ''ValueError''"
| "exn_name FileNotFoundError = ''FileNotFoundError''"
| "exn_name AttributeError = ''AttributeError''"
| "exn_name TypeError = ''TypeError''"
| "exn_name KeyError = ''KeyError''"
| "exn_name IndexError = ''IndexError''"
| "exn_name (OtherError n) = n"

text \<open>
  The two \<open>try\<close> blocks of \<open>_handle_api_error\<close> that read the remote \<open>Msg\<close>; \<open>None\<close>
  when the block falls through to the generic message (also when \<open>json()\<close> or \<open>get\<close>
  raises, which the bare \<open>except\<close> swallows).
\<close>

definition msg_406 :: "env \<Rightarrow> pyval option \<Rightarrow> string option" where
  "msg_406 ev body =
     (case body of
        Some (PDict error_data) \<Rightarrow>
          if dict_get error_data ''Res'' = Some (PStr ''KO'')
          then Some (''Error: '' @ py_str (repr ev) (dict_get_default error_data ''Msg'' (PStr ''Not Acceptable'')))
          else None
      | _ \<Rightarrow> None)"

definition msg_500 :: "env \<Rightarrow> pyval option \<Rightarrow> string option" where
  "msg_500 ev body =
     (case body of
        Some (PDict error_data) \<Rightarrow>
          if dict_get error_data ''Res'' = Some (PStr ''KO'')
          then Some (''Error: Internal server error - ''
                     @ py_str (repr ev) (dict_get_default error_data ''Msg'' (PStr ''Internal server error'')))
          else if dict_get error_data ''Msg'' \<noteq> None
          then Some (''Error: Internal server error - ''
                     @ py_str (repr ev) (dict_get_default error_data ''Msg'' PNone))
          else None
      | _ \<Rightarrow> None)"

fun handle_api_error :: "env \<Rightarrow> exn \<Rightarrow> string" where
  "handle_api_error ev (HTTPStatusError code body) =
     (if code = 401 then
        ''Error: Unauthorized. Your session may have expired. Please login again using openprodoc_login.''
      else if code = 404 then
        ''Error: Resource not found. Please check the ID or path is correct.''
      else if code = 403 then
        ''Error: Permission denied. You don't have access to this resource.''
      else if code = 406 then
        (case msg_406 ev body of
           Some m \<Rightarrow> m
         | None \<Rightarrow> ''Error: Request not acceptable. Check your input data for validation errors or duplicate entries.'')
      else if code = 429 then
        ''Error: Rate limit exceeded. Please wait before making more requests.''
      else if code = 500 then
        (case msg_500 ev body of
           Some m \<Rightarrow> m
         | None \<Rightarrow> ''Error: Internal server error. This may be due to invalid query syntax or missing WHERE clause in search queries.'')
      else ''Error: API request failed with status '' @ str_nat code)"
| "handle_api_error ev TimeoutException =
     ''Error: Request timed out. The server may be slow or unreachable. Please try again.''"
| "handle_api_error ev (ValueError m) = ''Error: '' @ m"
| "handle_api_error ev e =
     ''Error: Unexpected error occurred: '' @ exn_name e @ '': '' @ exn_str ev e"

text \<open>The \<open>except Exception as e: return _handle_api_error(e)\<close> that closes every tool.\<close>

definition catch_all :: "env \<Rightarrow> (exn + string) \<times> session \<Rightarrow> string \<times> session" where
  "catch_all ev r =
     (case r of
        (Inl e, st) \<Rightarrow> (handle_api_error ev e, st)
      | (Inr s, st) \<Rightarrow> (s, st))"

section \<open>Response renderer\<close>

text \<open>\<open>', '.join(v)\<close>: every element \<open>v\<close> yields must be a string.\<close>

fun all_strs :: "pyval list \<Rightarrow> exn + string list" where
  "all_strs [] = Inr []"
| "all_strs (PStr s # rest) = ebind (all_strs rest) (\<lambda>r. Inr (s # r))"
| "all_strs (v # rest) = Inl TypeError"

definition py_join :: "string \<Rightarrow> pyval \<Rightarrow> exn + string" where
  "py_join sep v = ebind (py_iter v) (\<lambda>xs. ebind (all_strs xs) (\<lambda>ss. Inr (join sep ss)))"

text \<open>The loop over \<open>list_attr\<close> in the single-record formatters.\<close>

fun custom_attr_lines :: "env \<Rightarrow> pyval list \<Rightarrow> exn + string list" where
  "custom_attr_lines ev [] = Inr []"
| "custom_attr_lines ev (attr # rest) =
     ebind (py_get attr ''Name'' (PStr ''Unknown'')) (\<lambda>attr_name.
     ebind (py_get attr ''Type'' (PStr ''Unknown'')) (\<lambda>attr_type.
     ebind (py_get attr ''Values'' (PList [])) (\<lambda>vals.
     ebind (py_join '', '' vals) (\<lambda>attr_values.
     ebind (custom_attr_lines ev rest) (\<lambda>more.
       Inr ((''- **'' @ py_str (repr ev) attr_name @ ''** ('' @ py_str (repr ev) attr_type
             @ ''): '' @ attr_values) # more))))))"

definition custom_attr_section :: "env \<Rightarrow> pyval \<Rightarrow> exn + string list" where
  "custom_attr_section ev item =
     ebind (py_get item ''ListAttr'' (PList [])) (\<lambda>list_attr.
       if truthy list_attr then
         ebind (py_iter list_attr) (\<lambda>attrs.
         ebind (custom_attr_lines ev attrs) (\<lambda>ls.
           Inr ([[], ''## Custom Attributes''] @ ls)))
       else Inr [])"

definition format_folder_markdown :: "env \<Rightarrow> pyval \<Rightarrow> exn + string" where
  "format_folder_markdown ev folder =
     ebind (extract_attr_value (repr ev) folder ''Title'' ''Unknown'') (\<lambda>name.
     ebind (extract_attr_value (repr ev) folder ''PDId'' ''N/A'') (\<lambda>folder_id.
     ebind (extract_attr_value (repr ev) folder ''FolderType'' ''N/A'') (\<lambda>folder_type.
     ebind (extract_attr_value (repr ev) folder ''ACL'' ''N/A'') (\<lambda>acl.
     ebind (extract_attr_value (repr ev) folder ''ParentId'' ''N/A'') (\<lambda>parent_id.
     ebind (extract_attr_value (repr ev) folder ''PDDate'' ''N/A'') (\<lambda>created.
     ebind (extract_attr_value (repr ev) folder ''PDAutor'' ''N/A'') (\<lambda>author.
     ebind (custom_attr_section ev folder) (\<lambda>custom.
       Inr (join [nl]
         ([''# Folder: '' @ py_str (repr ev) name,
           [],
           ''- **ID**: '' @ py_str (repr ev) folder_id,
           ''- **Type**: '' @ py_str (repr ev) folder_type,
           ''- **ACL**: '' @ py_str (repr ev) acl,
           ''- **Parent ID**: '' @ py_str (repr ev) parent_id,
           ''- **Created**: '' @ py_str (repr ev) created,
           ''- **Author**: '' @ py_str (repr ev) author] @ custom))))))))))"

text \<open>The optional \<open>- **Attributes**\<close> line of the list formatters.\<close>

definition attr_count_line :: "pyval \<Rightarrow> exn + string list" where
  "attr_count_line item =
     ebind (py_get item ''ListAttr'' (PList [])) (\<lambda>list_attr.
       if truthy list_attr then
         ebind (py_len list_attr) (\<lambda>n.
           Inr [''- **Attributes**: '' @ str_nat n @ '' custom attributes''])
       else Inr [])"

text \<open>The second line of a list report: \<open>total\<close> is the optional second argument.\<close>

definition count_line :: "int option \<Rightarrow> nat \<Rightarrow> string \<Rightarrow> string" where
  "count_line total_opt n what =
     (case total_opt of
        Some t \<Rightarrow> nl # ''Total: '' @ str_int t @ '' '' @ what @ '' (showing '' @ str_nat n @ '')''
      | None \<Rightarrow> nl # ''Showing '' @ str_nat n @ '' '' @ what)"

fun folder_items :: "env \<Rightarrow> pyval list \<Rightarrow> exn + string list" where
  "folder_items ev [] = Inr []"
| "folder_items ev (folder # rest) =
     ebind (extract_attr_value (repr ev) folder ''Title'' ''Unknown'') (\<lambda>name.
     ebind (extract_attr_value (repr ev) folder ''PDId'' ''N/A'') (\<lambda>folder_id.
     ebind (extract_attr_value (repr ev) folder ''FolderType'' ''N/A'') (\<lambda>folder_type.
     ebind (extract_attr_value (repr ev) folder ''PDDate'' ''N/A'') (\<lambda>created.
     ebind (extract_attr_value (repr ev) folder ''PDAutor'' ''N/A'') (\<lambda>author.
     ebind (attr_count_line folder) (\<lambda>attrs_line.
     ebind (folder_items ev rest) (\<lambda>more.
       Inr ([''## '' @ py_str (repr ev) name @ '' ('' @ py_str (repr ev) folder_id @ '')'',
             ''- **Type**: '' @ py_str (repr ev) folder_type,
             ''- **Created**: '' @ py_str (repr ev) created,
             ''- **Author**: '' @ py_str (repr ev) author]
            @ attrs_line @ [[]] @ more))))))))"

definition format_folders_list_markdown :: "env \<Rightarrow> pyval list \<Rightarrow> int option \<Rightarrow> exn + string" where
  "format_folders_list_markdown ev folders total_opt =
     (if folders = [] then Inr ''No folders found.''
      else ebind (folder_items ev folders) (\<lambda>items.
             Inr (join [nl] ([''# Folders'', count_line total_opt (length folders) ''folders'', []] @ items))))"

fun document_items :: "env \<Rightarrow> pyval list \<Rightarrow> exn + string list" where
  "document_items ev [] = Inr []"
| "document_items ev (doc # rest) =
     ebind (extract_attr_value (repr ev) doc ''Title'' ''Unknown'') (\<lambda>title.
     ebind (extract_attr_value (repr ev) doc ''PDId'' ''N/A'') (\<lambda>doc_id.
     ebind (extract_attr_value (repr ev) doc ''DocType'' ''N/A'') (\<lambda>doc_type.
     ebind (extract_attr_value (repr ev) doc ''Version'' ''N/A'') (\<lambda>version.
     ebind (extract_attr_value (repr ev) doc ''PDDate'' ''N/A'') (\<lambda>created.
     ebind (extract_attr_value (repr ev) doc ''PDAutor'' ''N/A'') (\<lambda>author.
     ebind (attr_count_line doc) (\<lambda>attrs_line.
     ebind (document_items ev rest) (\<lambda>more.
       Inr ([''## '' @ py_str (repr ev) title @ '' ('' @ py_str (repr ev) doc_id @ '')'',
             ''- **Type**: '' @ py_str (repr ev) doc_type,
             ''- **Version**: '' @ py_str (repr ev) version,
             ''- **Created**: '' @ py_str (repr ev) created,
             ''- **Author**: '' @ py_str (repr ev) author]
            @ attrs_line @ [[]] @ more)))))))))"

definition format_documents_list_markdown :: "env \<Rightarrow> pyval list \<Rightarrow> int option \<Rightarrow> exn + string" where
  "format_documents_list_markdown ev documents total_opt =
     (if documents = [] then Inr ''No documents found.''
      else ebind (document_items ev documents) (\<lambda>items.
             Inr (join [nl] ([''# Documents'', count_line total_opt (length documents) ''documents'', []] @ items))))"

section \<open>Input models\<close>

datatype ResponseFormat = MARKDOWN | JSON

record LoginInput =
  username :: "string option"
  password :: "string option"
  base_url :: "string option"

record CreateFolderInput =
  name :: string
  folder_type :: string
  parent_id :: "string option"
  parent_path :: "string option"
  acl :: string
  attributes :: "pyval list option"
  response_format :: ResponseFormat

record GetFolderInput =
  folder_id :: "string option"
  folder_path :: "string option"
  response_format :: ResponseFormat

record UpdateFolderInput =
  folder_id :: "string option"
  folder_path :: "string option"
  name :: "string option"
  acl :: "string option"
  attributes :: "pyval list option"
  response_format :: ResponseFormat

record DeleteFolderInput =
  folder_id :: "string option"
  folder_path :: "string option"

record ListSubfoldersInput =
  folder_id :: "string option"
  folder_path :: "string option"
  initial :: int
  final :: int
  response_format :: ResponseFormat

record ListDocumentsInput =
  folder_id :: "string option"
  folder_path :: "string option"
  initial :: int
  final :: int
  response_format :: ResponseFormat

record SearchInput =
  query :: string
  initial :: int
  final :: int
  response_format :: ResponseFormat

record DeleteDocumentInput =
  document_id :: string

record UpdateDocumentInput =
  document_id :: string
  file_path :: "string option"
  title :: "string option"
  document_type :: "string option"
  parent_folder_id :: "string option"
  acl :: "string option"
  version_label :: "string option"
  doc_date :: "string option"
  author :: "string option"
  pd_date :: "string option"
  attributes :: "pyval list option"
  response_format :: ResponseFormat

record UpdateTermInput =
  term_id :: string
  name :: "string option"
  description :: "string option"
  language :: "string option"
  scope_note :: "string option"
  response_format :: ResponseFormat








section \<open>Authentication tools\<close>

text \<open>\<open>a or b\<close> on optional strings.\<close>

definition opt_or :: "string option \<Rightarrow> string option \<Rightarrow> string option" where
  "opt_or a b = (if truthy_opt a then a else b)"

definition str_or :: "string option \<Rightarrow> string \<Rightarrow> string" where
  "str_or a b = (case a of Some s \<Rightarrow> if s \<noteq> [] then s else b | None \<Rightarrow> b)"

definition login_body :: "env \<Rightarrow> session \<Rightarrow> LoginInput \<Rightarrow> (exn + string) \<times> session" where
  "login_body ev st p =
     (let username = opt_or (LoginInput.username p) (default_username st);
          password = opt_or (LoginInput.password p) (default_password st);
          base_url' = str_or (LoginInput.base_url p) (session.base_url st)
      in case (username, password) of
           (Some u, Some pw) \<Rightarrow>
             if u = [] \<or> pw = [] then
               (Inr ''Error: Username and password are required. Provide them as parameters or set OPENPRODOC_USERNAME and OPENPRODOC_PASSWORD environment variables.'', st)
             else
               (let st1 = st\<lparr>session.base_url := base_url'\<rparr>;
                    rq = \<lparr>rq_method = ''PUT'', rq_url = session.base_url st1 @ ''/session'',
                          rq_headers = [(''Content-Type'', ''application/json''),
                                        (''Accept'', ''application/json'')],
                          rq_json = Some (PDict [(''Name'', PStr u), (''Password'', PStr pw)]),
                          rq_params = [], rq_files = [], rq_data = []\<rparr>;
                    st2 = st1\<lparr>requests := requests st1 @ [rq]\<rparr>
                in case remote ev (requests st1) rq of
                     Raises e \<Rightarrow> (Inl e, st2)
                   | Responds r \<Rightarrow>
                       (case ebind (raise_for_status r) json_body of
                          Inl e \<Rightarrow> (Inl e, st2)
                        | Inr (PDict d) \<Rightarrow>
                            (case (if dict_get d ''Res'' = Some (PStr ''OK'')
                                   then dict_get d ''Token'' else None) of
                               Some tok \<Rightarrow>
                                 (let st3 = st2\<lparr>auth_token := tok\<rparr>
                                  in (ebind (py_len (auth_token st3)) (\<lambda>n.
                                        Inr (''Successfully logged in to OpenProdoc as '' @ u
                                             @ ''. Token is valid for 24 hours.'')), st3))
                             | None \<Rightarrow>
                                 (Inr (''Error: Login failed. ''
                                       @ py_str (repr ev) (dict_get_default d ''Msg'' (PStr ''Unknown error''))),
                                  st2))
                        | Inr other \<Rightarrow> (Inl AttributeError, st2)))
         | other \<Rightarrow>
             (Inr ''Error: Username and password are required. Provide them as parameters or set OPENPRODOC_USERNAME and OPENPRODOC_PASSWORD environment variables.'', st))"

definition openprodoc_login :: "env \<Rightarrow> session \<Rightarrow> LoginInput \<Rightarrow> string \<times> session" where
  "openprodoc_login ev st p = catch_all ev (login_body ev st p)"

definition logout_body :: "env \<Rightarrow> session \<Rightarrow> (exn + string) \<times> session" where
  "logout_body ev st =
     (if \<not> truthy (auth_token st) then
        (Inr ''Error: Not authenticated. No active session to close.'', st)
      else
        (case get_auth_headers ev st of
           Inl e \<Rightarrow> (Inl e, st)
         | Inr hdrs \<Rightarrow>
             (case make_api_request ev st ''session'' ''DELETE'' hdrs None [] [] [] of
                (Inl e, st1) \<Rightarrow> (Inl e, st1)
              | (Inr data, st1) \<Rightarrow>
                  (ebind (py_get data ''Res'' PNone) (\<lambda>res.
                     if res = PStr ''OK'' then Inr ''Successfully logged out from OpenProdoc.''
                     else ebind (py_get data ''Msg'' (PStr ''Unknown'')) (\<lambda>m.
                            Inr (''Session closed (with message: '' @ py_str (repr ev) m @ '')''))),
                   st1\<lparr>auth_token := PNone\<rparr>))))"

text \<open>The \<open>except\<close> clause of logout clears the token before formatting the error.\<close>

definition openprodoc_logout :: "env \<Rightarrow> session \<Rightarrow> string \<times> session" where
  "openprodoc_logout ev st =
     (case logout_body ev st of
        (Inl e, st') \<Rightarrow> (handle_api_error ev e, st'\<lparr>auth_token := PNone\<rparr>)
      | (Inr s, st') \<Rightarrow> (s, st'))"

section \<open>Folder tools\<close>

text \<open>
  \<open>msg.split("=")[1] if "=" in msg else fallback\<close>, the expression every mutating tool
  uses to read the identifier out of the remote \<open>Msg\<close>.
\<close>

fun id_from_msg :: "pyval \<Rightarrow> string \<Rightarrow> exn + string" where
  "id_from_msg (PStr s) fallback =
     (if CHR ''='' \<in> set s then
        (case split_on (CHR ''='') s of
           a # b # rest \<Rightarrow> Inr b
         | other \<Rightarrow> Inl IndexError)
      else Inr fallback)"
| "id_from_msg (PList xs) fallback =
     (if PStr ''='' \<in> set xs then Inl AttributeError else Inr fallback)"
| "id_from_msg (PDict d) fallback =
     (if dict_get d ''='' \<noteq> None then Inl AttributeError else Inr fallback)"
| "id_from_msg other fallback = Inl TypeError"

text \<open>
  The \<open>if params.folder_id: ... elif params.folder_path: ... else: return "Error..."\<close>
  chain of get, update and delete; \<open>None\<close> is the \<open>else\<close> branch.
\<close>

definition folder_endpoint :: "string option \<Rightarrow> string option \<Rightarrow> string option" where
  "folder_endpoint fid fpath =
     (if truthy_opt fid then Some (''folders/ById/'' @ str_or fid [])
      else if truthy_opt fpath then
        (let path = (if endswith_slash (str_or fpath []) then str_or fpath []
                     else str_or fpath [] @ ''/'')
         in Some (''folders/ByPath'' @ path))
      else None)"

text \<open>The same chain in the two listing tools; \<open>kind\<close> is \<open>SubFolders\<close> or \<open>ContDocs\<close>.\<close>

definition listing_endpoint :: "string \<Rightarrow> string option \<Rightarrow> string option \<Rightarrow> string option" where
  "listing_endpoint kind fid fpath =
     (if truthy_opt fid then Some (''folders/'' @ kind @ ''ById/'' @ str_or fid [])
      else if truthy_opt fpath then
        (let path = str_or fpath []
         in Some (''folders/'' @ kind @ ''ByPath'' @ path))
      else None)"

definition no_identifier :: string where
  "no_identifier = ''Error: Either folder_id or folder_path must be provided''"

definition create_folder_body :: "env \<Rightarrow> session \<Rightarrow> CreateFolderInput \<Rightarrow> (exn + string) \<times> session" where
  "create_folder_body ev st p =
     (let parent =
            (if truthy_opt (parent_id p)
             then [(''Idparent'', PStr (str_or (parent_id p) [])), (''PathParent'', PStr [])]
             else if truthy_opt (parent_path p)
             then [(''PathParent'', PStr (str_or (parent_path p) [])), (''Idparent'', PStr [])]
             else [(''Idparent'', PStr ''RootFolder''), (''PathParent'', PStr [])]);
          body = [(''Id'', PStr []), (''Name'', PStr (CreateFolderInput.name p)),
                  (''ACL'', PStr (CreateFolderInput.acl p)), (''Type'', PStr (folder_type p)),
                  (''ListAttr'', PList (case CreateFolderInput.attributes p of
                                          Some (a # as) \<Rightarrow> a # as | other \<Rightarrow> []))] @ parent
      in case get_auth_headers ev st of
           Inl e \<Rightarrow> (Inl e, st)
         | Inr hdrs \<Rightarrow>
             (case make_api_request ev st ''folders'' ''POST''
                     (hdrs @ [(''Content-Type'', ''application/json'')]) (Some (PDict body)) [] [] [] of
                (Inl e, st1) \<Rightarrow> (Inl e, st1)
              | (Inr data, st1) \<Rightarrow>
                  (ebind (py_get data ''Res'' PNone) (\<lambda>res.
                     if res = PStr ''OK'' then
                       ebind (py_get data ''Msg'' (PStr [])) (\<lambda>msg.
                       ebind (id_from_msg msg ''Unknown'') (\<lambda>new_id.
                         if CreateFolderInput.response_format p = MARKDOWN then
                           Inr (join [nl]
                             ([''# Folder Created Successfully'', [],
                               ''- **Folder ID**: '' @ new_id,
                               ''- **Name**: '' @ CreateFolderInput.name p,
                               ''- **Type**: '' @ folder_type p]
                              @ (if truthy_opt (parent_id p)
                                 then [''- **Parent ID**: '' @ str_or (parent_id p) []]
                                 else if truthy_opt (parent_path p)
                                 then [''- **Parent Path**: '' @ str_or (parent_path p) []]
                                 else [])))
                         else
                           json_dumps_indent ev
                             (PDict [(''status'', PStr ''success''), (''folder_id'', PStr new_id),
                                     (''name'', PStr (CreateFolderInput.name p)),
                                     (''type'', PStr (folder_type p))])))
                     else ebind (py_get data ''Msg'' (PStr ''Unknown error'')) (\<lambda>m.
                            Inr (''Error: '' @ py_str (repr ev) m))),
                   st1)))"

definition openprodoc_create_folder :: "env \<Rightarrow> session \<Rightarrow> CreateFolderInput \<Rightarrow> string \<times> session" where
  "openprodoc_create_folder ev st p = catch_all ev (create_folder_body ev st p)"

definition get_folder_body :: "env \<Rightarrow> session \<Rightarrow> GetFolderInput \<Rightarrow> (exn + string) \<times> session" where
  "get_folder_body ev st p =
     (case folder_endpoint (GetFolderInput.folder_id p) (GetFolderInput.folder_path p) of
        None \<Rightarrow> (Inr no_identifier, st)
      | Some endpoint \<Rightarrow>
          (case get_auth_headers ev st of
             Inl e \<Rightarrow> (Inl e, st)
           | Inr hdrs \<Rightarrow>
               (case make_api_request ev st endpoint ''GET'' hdrs None [] [] [] of
                  (Inl e, st1) \<Rightarrow> (Inl e, st1)
                | (Inr data, st1) \<Rightarrow>
                    (if GetFolderInput.response_format p = MARKDOWN
                     then format_folder_markdown ev data
                     else json_dumps_indent ev data,
                     st1))))"

definition openprodoc_get_folder :: "env \<Rightarrow> session \<Rightarrow> GetFolderInput \<Rightarrow> string \<times> session" where
  "openprodoc_get_folder ev st p = catch_all ev (get_folder_body ev st p)"

text \<open>The request body and the list of updated field names of the folder update.\<close>

definition update_folder_fields :: "UpdateFolderInput \<Rightarrow> (string \<times> pyval) list \<times> string list" where
  "update_folder_fields p =
     ((case UpdateFolderInput.name p of Some n \<Rightarrow> [(''Name'', PStr n)] | None \<Rightarrow> [])
      @ (case UpdateFolderInput.acl p of Some a \<Rightarrow> [(''ACL'', PStr a)] | None \<Rightarrow> [])
      @ (case UpdateFolderInput.attributes p of Some xs \<Rightarrow> [(''ListAttr'', PList xs)] | None \<Rightarrow> []),
      (case UpdateFolderInput.name p of Some n \<Rightarrow> [''name''] | None \<Rightarrow> [])
      @ (case UpdateFolderInput.acl p of Some a \<Rightarrow> [''acl''] | None \<Rightarrow> [])
      @ (case UpdateFolderInput.attributes p of Some xs \<Rightarrow> [''attributes''] | None \<Rightarrow> []))"

definition update_folder_body :: "env \<Rightarrow> session \<Rightarrow> UpdateFolderInput \<Rightarrow> (exn + string) \<times> session" where
  "update_folder_body ev st p =
     (case update_folder_fields p of (body, updated_fields) \<Rightarrow>
        if body = [] then
          (Inr ''Error: No fields to update. Provide at least one of: name, acl, or attributes.'', st)
        else
          (case folder_endpoint (UpdateFolderInput.folder_id p) (UpdateFolderInput.folder_path p) of
             None \<Rightarrow> (Inr no_identifier, st)
           | Some endpoint \<Rightarrow>
               (case get_auth_headers ev st of
                  Inl e \<Rightarrow> (Inl e, st)
                | Inr hdrs \<Rightarrow>
                    (case make_api_request ev st endpoint ''PUT''
                            (hdrs @ [(''Content-Type'', ''application/json'')]) (Some (PDict body)) [] [] [] of
                       (Inl e, st1) \<Rightarrow> (Inl e, st1)
                     | (Inr data, st1) \<Rightarrow>
                         (ebind (py_get data ''Res'' PNone) (\<lambda>res.
                            if res = PStr ''OK'' then
                              ebind (py_get data ''Msg'' (PStr [])) (\<lambda>msg.
                              ebind (id_from_msg msg ''Unknown'') (\<lambda>new_id.
                                if UpdateFolderInput.response_format p = MARKDOWN then
                                  Inr (join [nl]
                                    [''# Folder Updated Successfully'', [],
                                     ''- **Folder ID**: '' @ new_id,
                                     ''- **Updated Fields**: '' @ join '', '' updated_fields])
                                else
                                  json_dumps_indent ev
                                    (PDict [(''status'', PStr ''success''), (''folder_id'', PStr new_id),
                                            (''updated_fields'', PList (map PStr updated_fields))])))
                            else ebind (py_get data ''Msg'' (PStr ''Unknown error'')) (\<lambda>m.
                                   Inr (''Error: '' @ py_str (repr ev) m))),
                          st1)))))"

definition openprodoc_update_folder :: "env \<Rightarrow> session \<Rightarrow> UpdateFolderInput \<Rightarrow> string \<times> session" where
  "openprodoc_update_folder ev st p = catch_all ev (update_folder_body ev st p)"



text \<open>\<open>data if isinstance(data, list) else []\<close>.\<close>

definition as_list :: "pyval \<Rightarrow> pyval list" where
  "as_list data = (case data of PList xs \<Rightarrow> xs | other \<Rightarrow> [])"

definition list_subfolders_body :: "env \<Rightarrow> session \<Rightarrow> ListSubfoldersInput \<Rightarrow> (exn + string) \<times> session" where
  "list_subfolders_body ev st p =
     (case listing_endpoint ''SubFolders'' (ListSubfoldersInput.folder_id p)
             (ListSubfoldersInput.folder_path p) of
        None \<Rightarrow> (Inr no_identifier, st)
      | Some endpoint \<Rightarrow>
          (case get_auth_headers ev st of
             Inl e \<Rightarrow> (Inl e, st)
           | Inr hdrs \<Rightarrow>
               (case make_api_request ev st endpoint ''GET'' hdrs None
                       [(''Initial'', str_int (ListSubfoldersInput.initial p)),
                        (''Final'', str_int (ListSubfoldersInput.final p))] [] [] of
                  (Inl e, st1) \<Rightarrow> (Inl e, st1)
                | (Inr data, st1) \<Rightarrow>
                    (let folders = as_list data
                     in if ListSubfoldersInput.response_format p = MARKDOWN then
                          ebind (format_folders_list_markdown ev folders None) (\<lambda>result.
                            Inr (check_truncation result folders ''folders''))
                        else
                          json_dumps_indent ev
                            (PDict [(''count'', PInt (int (length folders))),
                                    (''initial'', PInt (ListSubfoldersInput.initial p)),
                                    (''final'', PInt (ListSubfoldersInput.final p)),
                                    (''folders'', PList folders)]),
                     st1))))"

definition openprodoc_list_subfolders :: "env \<Rightarrow> session \<Rightarrow> ListSubfoldersInput \<Rightarrow> string \<times> session" where
  "openprodoc_list_subfolders ev st p = catch_all ev (list_subfolders_body ev st p)"

definition list_documents_in_folder_body ::
  "env \<Rightarrow> session \<Rightarrow> ListDocumentsInput \<Rightarrow> (exn + string) \<times> session" where
  "list_documents_in_folder_body ev st p =
     (case listing_endpoint ''ContDocs'' (ListDocumentsInput.folder_id p)
             (ListDocumentsInput.folder_path p) of
        None \<Rightarrow> (Inr no_identifier, st)
      | Some endpoint \<Rightarrow>
          (case get_auth_headers ev st of
             Inl e \<Rightarrow> (Inl e, st)
           | Inr hdrs \<Rightarrow>
               (case make_api_request ev st endpoint ''GET'' hdrs None
                       [(''Initial'', str_int (ListDocumentsInput.initial p)),
                        (''Final'', str_int (ListDocumentsInput.final p))] [] [] of
                  (Inl e, st1) \<Rightarrow> (Inl e, st1)
                | (Inr data, st1) \<Rightarrow>
                    (let documents = as_list data
                     in if ListDocumentsInput.response_format p = MARKDOWN then
                          ebind (format_documents_list_markdown ev documents None) (\<lambda>result.
                            Inr (check_truncation result documents ''documents''))
                        else
                          json_dumps_indent ev
                            (PDict [(''count'', PInt (int (length documents))),
                                    (''initial'', PInt (ListDocumentsInput.initial p)),
                                    (''final'', PInt (ListDocumentsInput.final p)),
                                    (''documents'', PList documents)]),
                     st1))))"

definition openprodoc_list_documents_in_folder ::
  "env \<Rightarrow> session \<Rightarrow> ListDocumentsInput \<Rightarrow> string \<times> session" where
  "openprodoc_list_documents_in_folder ev st p = catch_all ev (list_documents_in_folder_body ev st p)"

section \<open>Document tools\<close>

definition delete_document_body :: "env \<Rightarrow> session \<Rightarrow> DeleteDocumentInput \<Rightarrow> (exn + string) \<times> session" where
  "delete_document_body ev st p =
     (case get_auth_headers ev st of
        Inl e \<Rightarrow> (Inl e, st)
      | Inr hdrs \<Rightarrow>
          (case make_api_request ev st (''documents/ById/'' @ DeleteDocumentInput.document_id p)
                  ''DELETE'' hdrs None [] [] [] of
             (Inl e, st1) \<Rightarrow> (Inl e, st1)
           | (Inr data, st1) \<Rightarrow>
               (ebind (py_get data ''Res'' PNone) (\<lambda>res.
                  if res = PStr ''OK'' then
                    ebind (py_get data ''Msg'' (PStr [])) (\<lambda>msg.
                    ebind (id_from_msg msg (DeleteDocumentInput.document_id p)) (\<lambda>doc_id.
                      Inr (''Successfully deleted document: '' @ doc_id)))
                  else ebind (py_get data ''Msg'' (PStr ''Unknown error'')) (\<lambda>m.
                         Inr (''Error: '' @ py_str (repr ev) m))),
                st1)))"

definition openprodoc_delete_document :: "env \<Rightarrow> session \<Rightarrow> DeleteDocumentInput \<Rightarrow> string \<times> session" where
  "openprodoc_delete_document ev st p = catch_all ev (delete_document_body ev st p)"

text \<open>\<open>_get_document_metadata_raw\<close>: any exception becomes \<open>None\<close>.\<close>

definition get_document_metadata_raw :: "env \<Rightarrow> session \<Rightarrow> string \<Rightarrow> pyval \<times> session" where
  "get_document_metadata_raw ev st doc_id =
     (case get_auth_headers ev st of
        Inl e \<Rightarrow> (PNone, st)
      | Inr hdrs \<Rightarrow>
          (case make_api_request ev st (''documents/ById/'' @ doc_id) ''GET'' hdrs None [] [] [] of
             (Inl e, st1) \<Rightarrow> (PNone, st1)
           | (Inr data, st1) \<Rightarrow> (data, st1)))"

text \<open>\<open>os.path.basename\<close> on a POSIX path.\<close>

definition basename :: "string \<Rightarrow> string" where
  "basename path = last (split_on (CHR ''/'') path)"

text \<open>
  Steps 2 and 3 of the document update: the metadata seeded from the existing record
  and overridden by the supplied fields, and the names of the supplied fields.
\<close>

definition pick :: "string option \<Rightarrow> pyval \<Rightarrow> pyval" where
  "pick new old = (case new of Some s \<Rightarrow> PStr s | None \<Rightarrow> old)"

definition named :: "string option \<Rightarrow> string \<Rightarrow> string list" where
  "named new label = (case new of Some s \<Rightarrow> [label] | None \<Rightarrow> [])"

definition update_document_metadata :: "(string \<times> pyval) list \<Rightarrow> UpdateDocumentInput \<Rightarrow> (string \<times> pyval) list" where
  "update_document_metadata d p =
     [(''Title'', pick (title p) (dict_get_default d ''Title'' (PStr []))),
      (''ACL'', pick (UpdateDocumentInput.acl p) (dict_get_default d ''ACL'' (PStr ''Public''))),
      (''Idparent'', pick (parent_folder_id p) (dict_get_default d ''ParentId'' (PStr []))),
      (''Type'', pick (document_type p) (dict_get_default d ''Type'' (PStr []))),
      (''VerLabel'', pick (version_label p) (dict_get_default d ''VerLabel'' (PStr ''1.0''))),
      (''DocDate'', pick (doc_date p) (dict_get_default d ''DocDate'' (PStr []))),
      (''PDDate'', pick (pd_date p) (dict_get_default d ''PDDate'' (PStr []))),
      (''PDAuthor'', pick (author p) (dict_get_default d ''PDAuthor'' (PStr []))),
      (''ListAttr'', (case UpdateDocumentInput.attributes p of
                        Some xs \<Rightarrow> PList xs
                      | None \<Rightarrow> dict_get_default d ''ListAttr'' (PList [])))]"

definition update_document_fields :: "UpdateDocumentInput \<Rightarrow> string list" where
  "update_document_fields p =
     named (title p) ''title'' @ named (document_type p) ''document_type''
     @ named (parent_folder_id p) ''parent_folder_id'' @ named (UpdateDocumentInput.acl p) ''acl''
     @ named (version_label p) ''version_label'' @ named (doc_date p) ''doc_date''
     @ named (author p) ''author'' @ named (pd_date p) ''pd_date''
     @ (case UpdateDocumentInput.attributes p of Some xs \<Rightarrow> [''attributes''] | None \<Rightarrow> [])"

text \<open>The response handling shared by both branches of the document update.\<close>

definition update_document_result ::
  "env \<Rightarrow> UpdateDocumentInput \<Rightarrow> string list \<Rightarrow> pyval \<Rightarrow> exn + string" where
  "update_document_result ev p updated_fields data =
     ebind (py_get data ''Res'' PNone) (\<lambda>res.
       if res = PStr ''OK'' then
         ebind (py_get data ''Msg'' (PStr [])) (\<lambda>msg.
         ebind (id_from_msg msg (UpdateDocumentInput.document_id p)) (\<lambda>doc_id.
           if UpdateDocumentInput.response_format p = MARKDOWN then
             Inr (join [nl]
               [''# Document Updated Successfully'', [],
                ''- **Document ID**: '' @ doc_id,
                ''- **Updated Fields**: '' @ join '', '' updated_fields])
           else
             json_dumps_indent ev
               (PDict [(''status'', PStr ''success''), (''document_id'', PStr doc_id),
                       (''updated_fields'', PList (map PStr updated_fields))])))
       else ebind (py_get data ''Msg'' (PStr ''Unknown error'')) (\<lambda>m.
              Inr (''Error: '' @ py_str (repr ev) m)))"

definition update_document_body :: "env \<Rightarrow> session \<Rightarrow> UpdateDocumentInput \<Rightarrow> (exn + string) \<times> session" where
  "update_document_body ev st p =
     (case get_document_metadata_raw ev st (UpdateDocumentInput.document_id p) of
        (existing_doc, st0) \<Rightarrow>
          if \<not> truthy existing_doc then
            (Inr ''Error: Could not retrieve existing document metadata. Document may not exist.'', st0)
          else
            (case existing_doc of
               PDict d \<Rightarrow>
                 (let metadata = update_document_metadata d p;
                      updated_fields = update_document_fields p;
                      endpoint = ''documents/ById/'' @ UpdateDocumentInput.document_id p
                  in if updated_fields = [] \<and> \<not> truthy_opt (file_path p) then
                       (Inr ''Error: No fields to update. Provide at least one of: file_path, title, document_type, parent_folder_id, acl, version_label, doc_date, author, pd_date, or attributes.'', st0)
                     else
                       (case get_auth_headers ev st0 of
                          Inl e \<Rightarrow> (Inl e, st0)
                        | Inr hdrs \<Rightarrow>
                            if truthy_opt (file_path p) then
                              (case ebind (read_file ev (str_or (file_path p) [])) (\<lambda>file_content.
                                    ebind (json_dumps ev (PDict metadata)) (\<lambda>md.
                                      Inr (file_content, md))) of
                                 Inl e \<Rightarrow> (Inl e, st0)
                               | Inr (file_content, md) \<Rightarrow>
                                   (case make_api_request ev st0 endpoint ''PUT'' hdrs None []
                                           [(''Binary'', basename (str_or (file_path p) []), file_content)]
                                           [(''Metadata'', md)] of
                                      (Inl e, st1) \<Rightarrow> (Inl e, st1)
                                    | (Inr data, st1) \<Rightarrow>
                                        (update_document_result ev p (updated_fields @ [''binary'']) data, st1)))
                            else
                              (case json_dumps ev (PDict metadata) of
                                 Inl e \<Rightarrow> (Inl e, st0)
                               | Inr md \<Rightarrow>
                                   (case make_api_request ev st0 endpoint ''PUT''
                                           (hdrs @ [(''Content-Type'', ''application/json'')]) None []
                                           [] [(''Metadata'', md)] of
                                      (Inl e, st1) \<Rightarrow> (Inl e, st1)
                                    | (Inr data, st1) \<Rightarrow>
                                        (update_document_result ev p updated_fields data, st1)))))
             | other \<Rightarrow> (Inl AttributeError, st0)))"

text \<open>\<open>except FileNotFoundError\<close> comes before the general handler.\<close>

definition openprodoc_update_document :: "env \<Rightarrow> session \<Rightarrow> UpdateDocumentInput \<Rightarrow> string \<times> session" where
  "openprodoc_update_document ev st p =
     (case update_document_body ev st p of
        (Inl FileNotFoundError, st') \<Rightarrow>
          (''Error: File not found at path: ''
           @ (case file_path p of Some s \<Rightarrow> s | None \<Rightarrow> ''None''), st')
      | (Inl e, st') \<Rightarrow> (handle_api_error ev e, st')
      | (Inr s, st') \<Rightarrow> (s, st'))"



section \<open>Thesaurus tools\<close>

definition update_term_fields :: "UpdateTermInput \<Rightarrow> (string \<times> pyval) list \<times> string list" where
  "update_term_fields p =
     ((case UpdateTermInput.name p of Some n \<Rightarrow> [(''Name'', PStr n)] | None \<Rightarrow> [])
      @ (case description p of Some x \<Rightarrow> [(''Descrip'', PStr x)] | None \<Rightarrow> [])
      @ (case language p of Some x \<Rightarrow> [(''Lang'', PStr x)] | None \<Rightarrow> [])
      @ (case scope_note p of Some x \<Rightarrow> [(''SCN'', PStr x)] | None \<Rightarrow> []),
      named (UpdateTermInput.name p) ''name'' @ named (description p) ''description''
      @ named (language p) ''language'' @ named (scope_note p) ''scope_note'')"

definition update_term_body :: "env \<Rightarrow> session \<Rightarrow> UpdateTermInput \<Rightarrow> (exn + string) \<times> session" where
  "update_term_body ev st p =
     (case update_term_fields p of (body, updated_fields) \<Rightarrow>
        if body = [] then
          (Inr ''Error: No fields to update. Provide at least one of: name, description, language, or scope_note.'', st)
        else
          (case get_auth_headers ev st of
             Inl e \<Rightarrow> (Inl e, st)
           | Inr hdrs \<Rightarrow>
               (case make_api_request ev st (''thesauri/ById/'' @ term_id p) ''PUT''
                       (hdrs @ [(''Content-Type'', ''application/json'')]) (Some (PDict body)) [] [] [] of
                  (Inl e, st1) \<Rightarrow> (Inl e, st1)
                | (Inr data, st1) \<Rightarrow>
                    (ebind (py_get data ''Res'' PNone) (\<lambda>res.
                       if res = PStr ''OK'' then
                         ebind (py_get data ''Msg'' (PStr [])) (\<lambda>msg.
                         ebind (id_from_msg msg (term_id p)) (\<lambda>new_id.
                           if UpdateTermInput.response_format p = MARKDOWN then
                             Inr (join [nl]
                               [''# Thesaurus Term Updated Successfully'', [],
                                ''- **Term ID**: '' @ new_id,
                                ''- **Updated Fields**: '' @ join '', '' updated_fields])
                           else
                             json_dumps_indent ev
                               (PDict [(''status'', PStr ''success''), (''term_id'', PStr new_id),
                                       (''updated_fields'', PList (map PStr updated_fields))])))
                       else ebind (py_get data ''Msg'' (PStr ''Unknown error'')) (\<lambda>m.
                              Inr (''Error: '' @ py_str (repr ev) m))),
                     st1))))"

definition openprodoc_update_term :: "env \<Rightarrow> session \<Rightarrow> UpdateTermInput \<Rightarrow> string \<times> session" where
  "openprodoc_update_term ev st p = catch_all ev (update_term_body ev st p)"

section \<open>Notions used to state the properties\<close>

text \<open>An element of an attribute array is a dictionary; it is named \<open>f\<close> when its
  \<open>Name\<close> is the string \<open>f\<close>.\<close>

definition is_dict :: "pyval \<Rightarrow> bool" where
  "is_dict a = (case a of PDict kv \<Rightarrow> True | other \<Rightarrow> False)"

definition is_named :: "string \<Rightarrow> pyval \<Rightarrow> bool" where
  "is_named f a = (case a of PDict kv \<Rightarrow> dict_get kv ''Name'' = Some (PStr f) | other \<Rightarrow> False)"

text \<open>The substring of a message after its first \<open>=\<close>.\<close>

definition after_first_eq :: "string \<Rightarrow> string" where
  "after_first_eq s = drop 1 (dropWhile (\<lambda>c. c \<noteq> CHR ''='') s)"

text \<open>A login response that carries \<open>Res = "OK"\<close> and a \<open>Token\<close>.\<close>

definition login_accepted :: "transport \<Rightarrow> bool" where
  "login_accepted t =
     (case t of
        Raises e \<Rightarrow> False
      | Responds r \<Rightarrow>
          is_success (status_code r)
          \<and> (case json_body r of
                Inr (PDict d) \<Rightarrow> dict_get d ''Res'' = Some (PStr ''OK'') \<and> dict_get d ''Token'' \<noteq> None
              | other \<Rightarrow> False))"

text \<open>
  A mock service that gives the same answer to every request, with stand-ins for the
  library renderers, and a session holding a token.
\<close>

definition mock_env :: "transport \<Rightarrow> env" where
  "mock_env t =
     \<lparr>remote = (\<lambda>history rq. t),
      read_file = (\<lambda>path. Inl FileNotFoundError),
      repr = (\<lambda>v. ''<object>''),
      json_dumps = (\<lambda>v. Inr ''<json>''),
      json_dumps_indent = (\<lambda>v. Inr ''<json>''),
      exn_str = (\<lambda>e. ''<exception>'')\<rparr>"

definition json_response :: "nat \<Rightarrow> pyval \<Rightarrow> transport" where
  "json_response code v =
     Responds \<lparr>status_code = code, content_type = ''application/json'', content = [],
               json_body = Inr v\<rparr>"

definition logged_in :: session where
  "logged_in =
     \<lparr>auth_token = PStr ''abc123'', session.base_url = ''http://h/APIRest'',
      default_username = None, default_password = None, requests = []\<rparr>"

text \<open>A document update that supplies no optional field.\<close>

definition bare_document_update :: UpdateDocumentInput where
  "bare_document_update =
     \<lparr>UpdateDocumentInput.document_id = ''D1'', file_path = None, title = None,
      document_type = None, parent_folder_id = None, UpdateDocumentInput.acl = None,
      version_label = None, doc_date = None, author = None, pd_date = None,
      UpdateDocumentInput.attributes = None, UpdateDocumentInput.response_format = MARKDOWN\<rparr>"

section \<open>Auxiliary facts\<close>

lemma scan_attrs_find:
  "list_all is_dict attrs \<Longrightarrow>
   scan_attrs attrs f d =
     (case find (is_named f) attrs of
        None \<Rightarrow> Inr (PStr d)
      | Some a \<Rightarrow>
          (case py_get a ''Values'' (PList []) of
             Inl e \<Rightarrow> Inl e
           | Inr vals \<Rightarrow> if truthy vals then py_index0 vals else Inr (PStr d)))"
proof (induction attrs)
  case Nil
  show ?case by simp
next
  case (Cons a attrs)
  then obtain kv where a: "a = PDict kv" by (cases a) (auto simp: is_dict_def)
  show ?case using Cons by (simp add: a is_named_def dict_get_default_def split: option.splits)
qed






lemma snd_catch_all: "snd (catch_all ev r) = snd r"
  by (cases r) (auto simp: catch_all_def split: sum.splits)

lemma catch_all_Inr: "catch_all ev (Inr s, st) = (s, st)"
  by (simp add: catch_all_def)






section \<open>Attribute extraction\<close>

text \<open>
  C1 (in the form the code satisfies).  For a record \<open>item\<close>, a field \<open>f\<close> and a default \<open>d\<close>:
  when \<open>f\<close> is a direct key, the result is the string form of its value; otherwise,
  when the \<open>Attrs\<close> array holds dictionaries, the result is the first element of the
  \<open>Values\<close> of the first entry named \<open>f\<close>, or \<open>d\<close> when that sequence is empty, or
  \<open>d\<close> when no entry is named \<open>f\<close>.  Only \<open>Attrs\<close> is scanned: two records that
  differ in nothing but \<open>ListAttr\<close> give the same result for every other field.
\<close>

theorem extract_attr_value_precedence:
  "(dict_get item f = Some v \<longrightarrow>
      extract_attr_value rp (PDict item) f d = Inr (PStr (py_str rp v)))
   \<and> (dict_get item f = None
        \<and> dict_get_default item ''Attrs'' (PList []) = PList attrs
        \<and> list_all is_dict attrs \<longrightarrow>
        (find (is_named f) attrs = None \<longrightarrow>
           extract_attr_value rp (PDict item) f d = Inr (PStr d))
        \<and> (\<forall>kv x xs. find (is_named f) attrs = Some (PDict kv)
              \<and> dict_get kv ''Values'' = Some (PList (x # xs)) \<longrightarrow>
           extract_attr_value rp (PDict item) f d = Inr x)
        \<and> (\<forall>kv. find (is_named f) attrs = Some (PDict kv)
              \<and> dict_get kv ''Values'' = Some (PList []) \<longrightarrow>
           extract_attr_value rp (PDict item) f d = Inr (PStr d)))
   \<and> (f \<noteq> ''ListAttr'' \<and> (\<forall>k. k \<noteq> ''ListAttr'' \<longrightarrow> dict_get item k = dict_get item' k) \<longrightarrow>
        extract_attr_value rp (PDict item) f d = extract_attr_value rp (PDict item') f d)"
proof (intro conjI impI)
  assume "dict_get item f = Some v"
  then show "extract_attr_value rp (PDict item) f d = Inr (PStr (py_str rp v))"
    by simp
next
  assume h: "dict_get item f = None
        \<and> dict_get_default item ''Attrs'' (PList []) = PList attrs
        \<and> list_all is_dict attrs"
  then have e: "extract_attr_value rp (PDict item) f d = scan_attrs attrs f d"
    by simp
  note s = scan_attrs_find[of attrs f d]
  { assume "find (is_named f) attrs = None"
    then show "extract_attr_value rp (PDict item) f d = Inr (PStr d)"
      using h e s by simp }
  show "\<forall>kv x xs. find (is_named f) attrs = Some (PDict kv)
              \<and> dict_get kv ''Values'' = Some (PList (x # xs)) \<longrightarrow>
           extract_attr_value rp (PDict item) f d = Inr x"
    using h e s by (simp add: dict_get_default_def)
  show "\<forall>kv. find (is_named f) attrs = Some (PDict kv)
              \<and> dict_get kv ''Values'' = Some (PList []) \<longrightarrow>
           extract_attr_value rp (PDict item) f d = Inr (PStr d)"
    using h e s by (simp add: dict_get_default_def)
next
  assume h: "f \<noteq> ''ListAttr'' \<and> (\<forall>k. k \<noteq> ''ListAttr'' \<longrightarrow> dict_get item k = dict_get item' k)"
  then have "dict_get item f = dict_get item' f" "dict_get item ''Attrs'' = dict_get item' ''Attrs''"
    by simp_all
  then show "extract_attr_value rp (PDict item) f d = extract_attr_value rp (PDict item') f d"
    by (simp add: dict_get_default_def cong: option.case_cong)
qed

theorem extract_attr_value_precedence_witness:
  "(dict_get [(''Title'', PStr ''Flat''),
             (''Attrs'', PList [PDict [(''Name'', PStr ''Title''), (''Values'', PList [PStr ''A''])]])]
     ''Title'' = Some (PStr ''Flat'')
   \<and> extract_attr_value (\<lambda>v. [])
         (PDict [(''Title'', PStr ''Flat''),
                 (''Attrs'', PList [PDict [(''Name'', PStr ''Title''), (''Values'', PList [PStr ''A''])]])])
         ''Title'' ''N/A'' = Inr (PStr ''Flat'')
   \<and> extract_attr_value (\<lambda>v. [])
         (PDict [(''Attrs'', PList [PDict [(''Name'', PStr ''PDId''), (''Values'', PList [PStr ''id1''])],
                            PDict [(''Name'', PStr ''Title''), (''Values'', PList [PStr ''A'', PStr ''B''])]])])
         ''Title'' ''N/A'' = Inr (PStr ''A'')
   \<and> extract_attr_value (\<lambda>v. [])
         (PDict [(''Attrs'', PList [PDict [(''Name'', PStr ''Title''), (''Values'', PList [])]])])
         ''Title'' ''N/A'' = Inr (PStr ''N/A'')
   \<and> extract_attr_value (\<lambda>v. [])
         (PDict [(''Attrs'', PList [PDict [(''Name'', PStr ''PDId''), (''Values'', PList [PStr ''id1''])]])])
         ''Title'' ''N/A'' = Inr (PStr ''N/A''))
   \<and> (extract_attr_value (\<lambda>v. [])
         (PDict [(''ListAttr'', PList [PDict [(''Name'', PStr ''Title''), (''Values'', PList [PStr ''X''])]]),
                 (''PDId'', PStr ''id1'')]) ''Title'' ''N/A''
       = extract_attr_value (\<lambda>v. []) (PDict [(''PDId'', PStr ''id1'')]) ''Title'' ''N/A'')"
proof -
  have a: "dict_get [(''Title'', PStr ''Flat''),
             (''Attrs'', PList [PDict [(''Name'', PStr ''Title''), (''Values'', PList [PStr ''A''])]])]
     ''Title'' = Some (PStr ''Flat'')
   \<and> extract_attr_value (\<lambda>v. [])
         (PDict [(''Title'', PStr ''Flat''),
                 (''Attrs'', PList [PDict [(''Name'', PStr ''Title''), (''Values'', PList [PStr ''A''])]])])
         ''Title'' ''N/A'' = Inr (PStr ''Flat'')
   \<and> extract_attr_value (\<lambda>v. [])
         (PDict [(''Attrs'', PList [PDict [(''Name'', PStr ''PDId''), (''Values'', PList [PStr ''id1''])],
                            PDict [(''Name'', PStr ''Title''), (''Values'', PList [PStr ''A'', PStr ''B''])]])])
         ''Title'' ''N/A'' = Inr (PStr ''A'')
   \<and> extract_attr_value (\<lambda>v. [])
         (PDict [(''Attrs'', PList [PDict [(''Name'', PStr ''Title''), (''Values'', PList [])]])])
         ''Title'' ''N/A'' = Inr (PStr ''N/A'')
   \<and> extract_attr_value (\<lambda>v. [])
         (PDict [(''Attrs'', PList [PDict [(''Name'', PStr ''PDId''), (''Values'', PList [PStr ''id1''])]])])
         ''Title'' ''N/A'' = Inr (PStr ''N/A'')"
    using
      extract_attr_value_precedence [of "[(''Title'', PStr ''Flat''),
               (''Attrs'', PList [PDict [(''Name'', PStr ''Title''), (''Values'', PList [PStr ''A''])]])]"
         "''Title''" "PStr ''Flat''" "\<lambda>v. []" "''N/A''"]
      extract_attr_value_precedence [of
         "[(''Attrs'', PList [PDict [(''Name'', PStr ''PDId''), (''Values'', PList [PStr ''id1''])],
                              PDict [(''Name'', PStr ''Title''), (''Values'', PList [PStr ''A'', PStr ''B''])]])]"
         "''Title''" _ "\<lambda>v. []" "''N/A''"
         "[PDict [(''Name'', PStr ''PDId''), (''Values'', PList [PStr ''id1''])],
                              PDict [(''Name'', PStr ''Title''), (''Values'', PList [PStr ''A'', PStr ''B''])]]"]
      extract_attr_value_precedence [of
         "[(''Attrs'', PList [PDict [(''Name'', PStr ''Title''), (''Values'', PList [])]])]"
         "''Title''" _ "\<lambda>v. []" "''N/A''"
         "[PDict [(''Name'', PStr ''Title''), (''Values'', PList [])]]"]
      extract_attr_value_precedence [of
         "[(''Attrs'', PList [PDict [(''Name'', PStr ''PDId''), (''Values'', PList [PStr ''id1''])]])]"
         "''Title''" _ "\<lambda>v. []" "''N/A''"
         "[PDict [(''Name'', PStr ''PDId''), (''Values'', PList [PStr ''id1''])]]"]
    by (simp add: dict_get_def dict_get_default_def is_dict_def is_named_def)
  have b: "extract_attr_value (\<lambda>v. [])
         (PDict [(''ListAttr'', PList [PDict [(''Name'', PStr ''Title''), (''Values'', PList [PStr ''X''])]]),
                 (''PDId'', PStr ''id1'')]) ''Title'' ''N/A''
       = extract_attr_value (\<lambda>v. []) (PDict [(''PDId'', PStr ''id1'')]) ''Title'' ''N/A''"
  proof -
    have h: "''Title'' \<noteq> ''ListAttr''
     \<and> (\<forall>k. k \<noteq> ''ListAttr'' \<longrightarrow>
           dict_get [(''ListAttr'', PList [PDict [(''Name'', PStr ''Title''), (''Values'', PList [PStr ''X''])]]),
                     (''PDId'', PStr ''id1'')] k
           = dict_get [(''PDId'', PStr ''id1'')] k)"
      by (simp add: dict_get_def)
    from extract_attr_value_precedence
           [of "[(''ListAttr'', PList [PDict [(''Name'', PStr ''Title''), (''Values'', PList [PStr ''X''])]]),
                 (''PDId'', PStr ''id1'')]" "''Title''" _ "\<lambda>v. []" "''N/A''" _ "[(''PDId'', PStr ''id1'')]"] h
    have "extract_attr_value (\<lambda>v. [])
           (PDict [(''ListAttr'', PList [PDict [(''Name'', PStr ''Title''), (''Values'', PList [PStr ''X''])]]),
                   (''PDId'', PStr ''id1'')]) ''Title'' ''N/A''
         = extract_attr_value (\<lambda>v. []) (PDict [(''PDId'', PStr ''id1'')]) ''Title'' ''N/A''"
      by blast
    then show ?thesis .
  qed
  from a b show ?thesis by blast
qed

text \<open>
  The specification as written also reads the entry from \<open>ListAttr\<close>.  A record whose only
  entry named \<open>Title\<close> sits in \<open>ListAttr\<close> yields the default, not the entry's value.
\<close>

theorem extract_attr_value_listattr_counterexample:
  "dict_get [(''ListAttr'', PList [PDict [(''Name'', PStr ''Title''), (''Values'', PList [PStr ''X''])]])]
     ''Title'' = None
   \<and> extract_attr_value (\<lambda>v. [])
        (PDict [(''ListAttr'', PList [PDict [(''Name'', PStr ''Title''), (''Values'', PList [PStr ''X''])]])])
        ''Title'' ''N/A'' = Inr (PStr ''N/A'')
   \<and> extract_attr_value (\<lambda>v. [])
        (PDict [(''ListAttr'', PList [PDict [(''Name'', PStr ''Title''), (''Values'', PList [PStr ''X''])]])])
        ''Title'' ''N/A'' \<noteq> Inr (PStr ''X'')"
  by (simp add: dict_get_def dict_get_default_def)

section \<open>Truncation of reports\<close>




section \<open>Facts about the mock service\<close>

lemma make_api_request_mock:
  "make_api_request (mock_env t) st endpoint method hdrs js ps fs ds =
     ((case t of
         Raises e \<Rightarrow> Inl e
       | Responds r \<Rightarrow>
           ebind (raise_for_status r) (\<lambda>r.
             if \<not> sublist ''application/json'' (content_type r)
             then Inr (PDict [(''binary_content'', PBytes (content r))])
             else json_body r)),
      st\<lparr>requests := requests st @
          [\<lparr>rq_method = method, rq_url = session.base_url st @ ''/'' @ endpoint, rq_headers = hdrs,
            rq_json = js, rq_params = ps, rq_files = fs, rq_data = ds\<rparr>]\<rparr>)"
  by (simp add: make_api_request_def mock_env_def Let_def)

lemma get_auth_headers_logged_in:
  "get_auth_headers (mock_env t) logged_in =
     Inr [(''Authorization'', ''Bearer abc123''), (''Accept'', ''application/json'')]"
  by (simp add: get_auth_headers_def logged_in_def ebind_def mock_env_def)

lemma mock_env_sel:
  "remote (mock_env t) = (\<lambda>history rq. t)"
  "read_file (mock_env t) = (\<lambda>path. Inl FileNotFoundError)"
  "repr (mock_env t) = (\<lambda>v. ''<object>'')"
  "json_dumps (mock_env t) = (\<lambda>v. Inr ''<json>'')"
  "json_dumps_indent (mock_env t) = (\<lambda>v. Inr ''<json>'')"
  "exn_str (mock_env t) = (\<lambda>e. ''<exception>'')"
  by (simp_all add: mock_env_def)

lemma logged_in_sel:
  "auth_token logged_in = PStr ''abc123''"
  "session.base_url logged_in = ''http://h/APIRest''"
  "default_username logged_in = None"
  "default_password logged_in = None"
  "requests logged_in = []"
  by (simp_all add: logged_in_def)

lemma bare_document_update_sel:
  "UpdateDocumentInput.document_id bare_document_update = ''D1''"
  "file_path bare_document_update = None"
  "title bare_document_update = None"
  "document_type bare_document_update = None"
  "parent_folder_id bare_document_update = None"
  "UpdateDocumentInput.acl bare_document_update = None"
  "version_label bare_document_update = None"
  "doc_date bare_document_update = None"
  "author bare_document_update = None"
  "pd_date bare_document_update = None"
  "UpdateDocumentInput.attributes bare_document_update = None"
  by (simp_all add: bare_document_update_def)

lemma get_document_metadata_raw_mock:
  "get_document_metadata_raw (mock_env (json_response 200 v)) logged_in i =
     (v, logged_in\<lparr>requests :=
           [\<lparr>rq_method = ''GET'', rq_url = ''http://h/APIRest/documents/ById/'' @ i,
             rq_headers = [(''Authorization'', ''Bearer abc123''), (''Accept'', ''application/json'')],
             rq_json = None, rq_params = [], rq_files = [], rq_data = []\<rparr>]\<rparr>)"
  by (simp add: get_document_metadata_raw_def get_auth_headers_logged_in make_api_request_mock
        json_response_def raise_for_status_def is_success_def ebind_def logged_in_sel)

lemma get_document_metadata_raw_requests:
  "requests (snd (get_document_metadata_raw ev st i)) =
     (case get_auth_headers ev st of
        Inl e \<Rightarrow> requests st
      | Inr hdrs \<Rightarrow> requests st @
          [\<lparr>rq_method = ''GET'', rq_url = session.base_url st @ ''/documents/ById/'' @ i,
            rq_headers = hdrs, rq_json = None, rq_params = [], rq_files = [], rq_data = []\<rparr>])"
  by (simp add: get_document_metadata_raw_def make_api_request_def Let_def
      split: sum.splits transport.splits)

lemma split_on_takeWhile:
  "split_on c s =
     takeWhile (\<lambda>x. x \<noteq> c) s #
       (if c \<in> set s then split_on c (drop 1 (dropWhile (\<lambda>x. x \<noteq> c) s)) else [])"
proof (induction s)
  case Nil
  show ?case by simp
next
  case (Cons x xs)
  show ?case using Cons by (auto split: list.splits)
qed

lemma id_from_msg_between:
  "CHR ''='' \<in> set s \<Longrightarrow>
   id_from_msg (PStr s) fb = Inr (takeWhile (\<lambda>x. x \<noteq> CHR ''='') (after_first_eq s))"
proof -
  assume h: "CHR ''='' \<in> set s"
  have "split_on (CHR ''='') s =
          takeWhile (\<lambda>x. x \<noteq> CHR ''='') s # split_on (CHR ''='') (after_first_eq s)"
    using h by (subst split_on_takeWhile) (simp add: after_first_eq_def)
  moreover have "split_on (CHR ''='') (after_first_eq s) =
          takeWhile (\<lambda>x. x \<noteq> CHR ''='') (after_first_eq s) #
          (if CHR ''='' \<in> set (after_first_eq s)
           then split_on (CHR ''='') (drop 1 (dropWhile (\<lambda>x. x \<noteq> CHR ''='') (after_first_eq s))) else [])"
    by (rule split_on_takeWhile)
  ultimately show ?thesis using h by simp
qed

section \<open>Folder identifiers\<close>






section \<open>Updates without fields\<close>

text \<open>
  C4 (in the form the code satisfies).  A folder update and a term update that supply no optional field
  return the validation error and leave the session untouched: no request is sent.
  A document update that supplies no optional field first fetches the existing
  record: when a token is stored it sends exactly one request, the \<open>GET\<close> of the
  document's metadata, and no other; it then returns the validation error when the
  fetch produced a non-empty record, and the retrieval error when it produced nothing.
\<close>

theorem update_without_fields:
  "(UpdateFolderInput.name u = None \<and> UpdateFolderInput.acl u = None
      \<and> UpdateFolderInput.attributes u = None \<longrightarrow>
      openprodoc_update_folder ev st u =
        (''Error: No fields to update. Provide at least one of: name, acl, or attributes.'', st))
   \<and> (UpdateTermInput.name t = None \<and> description t = None \<and> language t = None
        \<and> scope_note t = None \<longrightarrow>
      openprodoc_update_term ev st t =
        (''Error: No fields to update. Provide at least one of: name, description, language, or scope_note.'', st))
   \<and> (file_path p = None \<and> title p = None \<and> document_type p = None \<and> parent_folder_id p = None
        \<and> UpdateDocumentInput.acl p = None \<and> version_label p = None \<and> doc_date p = None
        \<and> author p = None \<and> pd_date p = None \<and> UpdateDocumentInput.attributes p = None \<longrightarrow>
      openprodoc_update_document ev st p =
        (case get_document_metadata_raw ev st (UpdateDocumentInput.document_id p) of
           (existing_doc, st0) \<Rightarrow>
             (if \<not> truthy existing_doc then
                ''Error: Could not retrieve existing document metadata. Document may not exist.''
              else if is_dict existing_doc then
                ''Error: No fields to update. Provide at least one of: file_path, title, document_type, parent_folder_id, acl, version_label, doc_date, author, pd_date, or attributes.''
              else handle_api_error ev AttributeError,
              st0))
      \<and> requests (snd (openprodoc_update_document ev st p)) =
          (case get_auth_headers ev st of
             Inl e \<Rightarrow> requests st
           | Inr hdrs \<Rightarrow> requests st @
               [\<lparr>rq_method = ''GET'',
                 rq_url = session.base_url st @ ''/documents/ById/'' @ UpdateDocumentInput.document_id p,
                 rq_headers = hdrs, rq_json = None, rq_params = [], rq_files = [], rq_data = []\<rparr>]))"
proof (intro conjI impI)
  assume "UpdateFolderInput.name u = None \<and> UpdateFolderInput.acl u = None
      \<and> UpdateFolderInput.attributes u = None"
  then show "openprodoc_update_folder ev st u =
        (''Error: No fields to update. Provide at least one of: name, acl, or attributes.'', st)"
    by (simp add: openprodoc_update_folder_def update_folder_body_def update_folder_fields_def
          catch_all_Inr)
next
  assume "UpdateTermInput.name t = None \<and> description t = None \<and> language t = None
        \<and> scope_note t = None"
  then show "openprodoc_update_term ev st t =
        (''Error: No fields to update. Provide at least one of: name, description, language, or scope_note.'', st)"
    by (simp add: openprodoc_update_term_def update_term_body_def update_term_fields_def named_def
          catch_all_Inr)
next
  assume h: "file_path p = None \<and> title p = None \<and> document_type p = None \<and> parent_folder_id p = None
        \<and> UpdateDocumentInput.acl p = None \<and> version_label p = None \<and> doc_date p = None
        \<and> author p = None \<and> pd_date p = None \<and> UpdateDocumentInput.attributes p = None"
  then have f: "update_document_fields p = []" "\<not> truthy_opt (file_path p)"
    by (simp_all add: update_document_fields_def named_def)
  obtain doc st0 where g: "get_document_metadata_raw ev st (UpdateDocumentInput.document_id p) = (doc, st0)"
    by fastforce
  have b: "update_document_body ev st p =
     (if \<not> truthy doc then
        (Inr ''Error: Could not retrieve existing document metadata. Document may not exist.'', st0)
      else if is_dict doc then
        (Inr ''Error: No fields to update. Provide at least one of: file_path, title, document_type, parent_folder_id, acl, version_label, doc_date, author, pd_date, or attributes.'', st0)
      else (Inl AttributeError, st0))"
    using f by (cases doc) (simp_all add: update_document_body_def g Let_def is_dict_def)
  show r: "openprodoc_update_document ev st p =
        (case get_document_metadata_raw ev st (UpdateDocumentInput.document_id p) of
           (existing_doc, st0) \<Rightarrow>
             (if \<not> truthy existing_doc then
                ''Error: Could not retrieve existing document metadata. Document may not exist.''
              else if is_dict existing_doc then
                ''Error: No fields to update. Provide at least one of: file_path, title, document_type, parent_folder_id, acl, version_label, doc_date, author, pd_date, or attributes.''
              else handle_api_error ev AttributeError,
              st0))"
    by (simp add: openprodoc_update_document_def b g)
  have "snd (openprodoc_update_document ev st p) = snd (get_document_metadata_raw ev st (UpdateDocumentInput.document_id p))"
    by (simp add: r g)
  then show "requests (snd (openprodoc_update_document ev st p)) =
          (case get_auth_headers ev st of
             Inl e \<Rightarrow> requests st
           | Inr hdrs \<Rightarrow> requests st @
               [\<lparr>rq_method = ''GET'',
                 rq_url = session.base_url st @ ''/documents/ById/'' @ UpdateDocumentInput.document_id p,
                 rq_headers = hdrs, rq_json = None, rq_params = [], rq_files = [], rq_data = []\<rparr>])"
    by (simp add: get_document_metadata_raw_requests)
qed

theorem update_without_fields_witness:
  "openprodoc_update_folder (mock_env (Raises TimeoutException)) logged_in
      \<lparr>UpdateFolderInput.folder_id = Some ''F1'', UpdateFolderInput.folder_path = None,
       UpdateFolderInput.name = None, UpdateFolderInput.acl = None,
       UpdateFolderInput.attributes = None, UpdateFolderInput.response_format = MARKDOWN\<rparr>
     = (''Error: No fields to update. Provide at least one of: name, acl, or attributes.'', logged_in)
   \<and> openprodoc_update_term (mock_env (Raises TimeoutException)) logged_in
      \<lparr>term_id = ''T1'', UpdateTermInput.name = None, description = None, language = None,
       scope_note = None, UpdateTermInput.response_format = MARKDOWN\<rparr>
     = (''Error: No fields to update. Provide at least one of: name, description, language, or scope_note.'', logged_in)
   \<and> requests (snd (openprodoc_update_document
         (mock_env (json_response 200 (PDict [(''Title'', PStr ''T'')]))) logged_in bare_document_update))
     = [\<lparr>rq_method = ''GET'', rq_url = ''http://h/APIRest/documents/ById/D1'',
         rq_headers = [(''Authorization'', ''Bearer abc123''), (''Accept'', ''application/json'')],
         rq_json = None, rq_params = [], rq_files = [], rq_data = []\<rparr>]"
proof -
  let ?u = "\<lparr>UpdateFolderInput.folder_id = Some ''F1'', UpdateFolderInput.folder_path = None,
       UpdateFolderInput.name = None, UpdateFolderInput.acl = None,
       UpdateFolderInput.attributes = None, UpdateFolderInput.response_format = MARKDOWN\<rparr>"
  let ?t = "\<lparr>term_id = ''T1'', UpdateTermInput.name = None, description = None, language = None,
       scope_note = None, UpdateTermInput.response_format = MARKDOWN\<rparr>"
  let ?ev = "mock_env (json_response 200 (PDict [(''Title'', PStr ''T'')]))"
  note w = update_without_fields
      [of ?u "mock_env (Raises TimeoutException)" logged_in ?t bare_document_update]
  note w' = update_without_fields [of ?u ?ev logged_in ?t bare_document_update]
  have a: "openprodoc_update_folder (mock_env (Raises TimeoutException)) logged_in ?u
     = (''Error: No fields to update. Provide at least one of: name, acl, or attributes.'', logged_in)"
    using w by simp
  have b: "openprodoc_update_term (mock_env (Raises TimeoutException)) logged_in ?t
     = (''Error: No fields to update. Provide at least one of: name, description, language, or scope_note.'', logged_in)"
    using w by simp
  have c: "requests (snd (openprodoc_update_document ?ev logged_in bare_document_update))
     = [\<lparr>rq_method = ''GET'', rq_url = ''http://h/APIRest/documents/ById/D1'',
         rq_headers = [(''Authorization'', ''Bearer abc123''), (''Accept'', ''application/json'')],
         rq_json = None, rq_params = [], rq_files = [], rq_data = []\<rparr>]"
  proof -
    have hyp: "file_path bare_document_update = None \<and> title bare_document_update = None
        \<and> document_type bare_document_update = None \<and> parent_folder_id bare_document_update = None
        \<and> UpdateDocumentInput.acl bare_document_update = None
        \<and> version_label bare_document_update = None \<and> doc_date bare_document_update = None
        \<and> author bare_document_update = None \<and> pd_date bare_document_update = None
        \<and> UpdateDocumentInput.attributes bare_document_update = None"
      by (simp add: bare_document_update_sel)
    from w' hyp
    have "requests (snd (openprodoc_update_document ?ev logged_in bare_document_update)) =
          (case get_auth_headers ?ev logged_in of
             Inl e \<Rightarrow> requests logged_in
           | Inr hdrs \<Rightarrow> requests logged_in @
               [\<lparr>rq_method = ''GET'',
                 rq_url = session.base_url logged_in @ ''/documents/ById/''
                          @ UpdateDocumentInput.document_id bare_document_update,
                 rq_headers = hdrs, rq_json = None, rq_params = [], rq_files = [], rq_data = []\<rparr>])"
      by blast
    then show ?thesis
      by (simp add: bare_document_update_sel get_auth_headers_logged_in logged_in_sel)
  qed
  from a b c show ?thesis by blast
qed

text \<open>
  The specification as written promises no network request for any update.  Against a service
  that answers with a record, the document update without fields returns the
  validation error after the metadata request has been sent.
\<close>

theorem update_document_fetches_counterexample:
  "openprodoc_update_document (mock_env (json_response 200 (PDict [(''Title'', PStr ''T'')])))
      logged_in bare_document_update
     = (''Error: No fields to update. Provide at least one of: file_path, title, document_type, parent_folder_id, acl, version_label, doc_date, author, pd_date, or attributes.'',
        logged_in\<lparr>requests :=
           [\<lparr>rq_method = ''GET'', rq_url = ''http://h/APIRest/documents/ById/D1'',
             rq_headers = [(''Authorization'', ''Bearer abc123''), (''Accept'', ''application/json'')],
             rq_json = None, rq_params = [], rq_files = [], rq_data = []\<rparr>]\<rparr>)
   \<and> requests (snd (openprodoc_update_document
         (mock_env (json_response 200 (PDict [(''Title'', PStr ''T'')]))) logged_in bare_document_update))
       \<noteq> requests logged_in"
  by (simp add: openprodoc_update_document_def update_document_body_def
        get_document_metadata_raw_mock bare_document_update_sel update_document_fields_def
        named_def Let_def logged_in_sel)

section \<open>Path endpoints\<close>

text \<open>
  C5.  The two listing operations pass the path on as it is: for the path \<open>/Docs\<close>
  the request goes to \<open>.../SubFoldersByPath/Docs\<close> and \<open>.../ContDocsByPath/Docs\<close>,
  without a trailing separator, while the get operation sends \<open>.../ByPath/Docs/\<close>.
\<close>

theorem listing_path_not_normalized:
  "map rq_url (requests (snd (openprodoc_list_subfolders (mock_env (json_response 200 (PList []))) logged_in
      \<lparr>ListSubfoldersInput.folder_id = None, ListSubfoldersInput.folder_path = Some ''/Docs'',
       ListSubfoldersInput.initial = 0, ListSubfoldersInput.final = 200,
       ListSubfoldersInput.response_format = JSON\<rparr>)))
     = [''http://h/APIRest/folders/SubFoldersByPath/Docs'']
   \<and> map rq_url (requests (snd (openprodoc_list_documents_in_folder
        (mock_env (json_response 200 (PList []))) logged_in
      \<lparr>ListDocumentsInput.folder_id = None, ListDocumentsInput.folder_path = Some ''/Docs'',
       ListDocumentsInput.initial = 0, ListDocumentsInput.final = 200,
       ListDocumentsInput.response_format = JSON\<rparr>)))
     = [''http://h/APIRest/folders/ContDocsByPath/Docs'']
   \<and> \<not> endswith_slash ''http://h/APIRest/folders/SubFoldersByPath/Docs''
   \<and> \<not> endswith_slash ''http://h/APIRest/folders/ContDocsByPath/Docs''
   \<and> map rq_url (requests (snd (openprodoc_get_folder (mock_env (json_response 200 (PDict []))) logged_in
      \<lparr>GetFolderInput.folder_id = None, GetFolderInput.folder_path = Some ''/Docs'',
       GetFolderInput.response_format = JSON\<rparr>)))
     = [''http://h/APIRest/folders/ByPath/Docs/'']"
  by (simp add: openprodoc_list_subfolders_def openprodoc_list_documents_in_folder_def
        openprodoc_get_folder_def snd_catch_all list_subfolders_body_def
        list_documents_in_folder_body_def get_folder_body_def listing_endpoint_def
        folder_endpoint_def str_or_def endswith_slash_def get_auth_headers_logged_in
        make_api_request_mock logged_in_sel json_response_def raise_for_status_def
        is_success_def ebind_def Let_def)

section \<open>Identifier in the remote message\<close>

text \<open>
  C6.  For the message \<open>Creado=ab=cd\<close> the identifier read is \<open>ab\<close>, the text between
  the first and the second \<open>=\<close>, whereas the text after the first \<open>=\<close> is \<open>ab=cd\<close>;
  deleting the document \<open>ab=cd\<close> is reported as the deletion of \<open>ab\<close>.
\<close>

theorem id_from_msg_second_segment:
  "id_from_msg (PStr ''Creado=ab=cd'') ''Unknown'' = Inr ''ab''
   \<and> after_first_eq ''Creado=ab=cd'' = ''ab=cd''
   \<and> fst (openprodoc_delete_document
         (mock_env (json_response 200 (PDict [(''Res'', PStr ''OK''), (''Msg'', PStr ''Borrado=ab=cd'')])))
         logged_in \<lparr>DeleteDocumentInput.document_id = ''ab=cd''\<rparr>)
       = ''Successfully deleted document: ab''"
  by (simp add: after_first_eq_def openprodoc_delete_document_def delete_document_body_def
        get_auth_headers_logged_in make_api_request_mock json_response_def raise_for_status_def
        is_success_def ebind_def dict_get_default_def dict_get_def catch_all_def)

section \<open>Remote errors of a search\<close>



section \<open>Session state\<close>

text \<open>
  C8.  A logout called while a token is stored (a token the code takes as present,
  that is a true value) leaves no token behind, whatever the remote service does.
\<close>

theorem logout_clears_token:
  "truthy (auth_token st) \<Longrightarrow> auth_token (snd (openprodoc_logout ev st)) = PNone"
  by (simp add: openprodoc_logout_def logout_body_def split: sum.splits prod.splits)

theorem logout_clears_token_witness:
  "truthy (auth_token logged_in)
   \<and> openprodoc_logout (mock_env (json_response 200 (PDict [(''Res'', PStr ''OK'')]))) logged_in
       = (''Successfully logged out from OpenProdoc.'',
          logged_in\<lparr>auth_token := PNone,
            requests := [\<lparr>rq_method = ''DELETE'', rq_url = ''http://h/APIRest/session'',
              rq_headers = [(''Authorization'', ''Bearer abc123''), (''Accept'', ''application/json'')],
              rq_json = None, rq_params = [], rq_files = [], rq_data = []\<rparr>]\<rparr>)
   \<and> auth_token (snd (openprodoc_logout
         (mock_env (json_response 200 (PDict [(''Res'', PStr ''KO''), (''Msg'', PStr ''x'')]))) logged_in)) = PNone
   \<and> auth_token (snd (openprodoc_logout (mock_env (Raises TimeoutException)) logged_in)) = PNone
   \<and> auth_token (snd (openprodoc_logout (mock_env (json_response 500 PNone)) logged_in)) = PNone"
proof -
  have t: "truthy (auth_token logged_in)" by (simp add: logged_in_sel)
  have a: "openprodoc_logout (mock_env (json_response 200 (PDict [(''Res'', PStr ''OK'')]))) logged_in
       = (''Successfully logged out from OpenProdoc.'',
          logged_in\<lparr>auth_token := PNone,
            requests := [\<lparr>rq_method = ''DELETE'', rq_url = ''http://h/APIRest/session'',
              rq_headers = [(''Authorization'', ''Bearer abc123''), (''Accept'', ''application/json'')],
              rq_json = None, rq_params = [], rq_files = [], rq_data = []\<rparr>]\<rparr>)"
    by (simp add: openprodoc_logout_def logout_body_def get_auth_headers_logged_in
          make_api_request_mock json_response_def raise_for_status_def is_success_def ebind_def
          dict_get_default_def dict_get_def logged_in_sel)
  show ?thesis
    using t a
      logout_clears_token [OF t, of "mock_env (json_response 200 (PDict [(''Res'', PStr ''KO''), (''Msg'', PStr ''x'')]))"]
      logout_clears_token [OF t, of "mock_env (Raises TimeoutException)"]
      logout_clears_token [OF t, of "mock_env (json_response 500 PNone)"]
    by blast
qed

text \<open>
  C10.  A login that has credentials, is given a base URL and is not accepted (the
  request raises, the status is not 2xx, the body is not JSON, or it lacks
  \<open>Res = "OK"\<close> with a \<open>Token\<close>) leaves the stored token as it was and has already
  replaced the global base URL; its one request went to the new URL.
\<close>

theorem login_failure_keeps_token_changes_url:
  assumes "opt_or (LoginInput.username p) (default_username st) = Some u" and "u \<noteq> []"
    and "opt_or (LoginInput.password p) (default_password st) = Some pw" and "pw \<noteq> []"
    and "LoginInput.base_url p = Some b" and "b \<noteq> []"
    and "\<not> login_accepted (remote ev (requests st)
           \<lparr>rq_method = ''PUT'', rq_url = b @ ''/session'',
            rq_headers = [(''Content-Type'', ''application/json''), (''Accept'', ''application/json'')],
            rq_json = Some (PDict [(''Name'', PStr u), (''Password'', PStr pw)]),
            rq_params = [], rq_files = [], rq_data = []\<rparr>)"
  shows "auth_token (snd (openprodoc_login ev st p)) = auth_token st
         \<and> session.base_url (snd (openprodoc_login ev st p)) = b
         \<and> requests (snd (openprodoc_login ev st p)) = requests st @
              [\<lparr>rq_method = ''PUT'', rq_url = b @ ''/session'',
                rq_headers = [(''Content-Type'', ''application/json''), (''Accept'', ''application/json'')],
                rq_json = Some (PDict [(''Name'', PStr u), (''Password'', PStr pw)]),
                rq_params = [], rq_files = [], rq_data = []\<rparr>]"
  using assms
  by (auto simp: openprodoc_login_def snd_catch_all login_body_def Let_def str_or_def
        login_accepted_def raise_for_status_def ebind_def
      split: transport.splits sum.splits pyval.splits option.splits if_splits)

theorem login_failure_keeps_token_changes_url_witness:
  "opt_or (Some ''root'') (default_username logged_in) = Some ''root''
   \<and> opt_or (Some ''bad'') (default_password logged_in) = Some ''bad''
   \<and> \<not> login_accepted (json_response 200 (PDict [(''Res'', PStr ''KO''), (''Msg'', PStr ''Invalid'')]))
   \<and> auth_token (snd (openprodoc_login
         (mock_env (json_response 200 (PDict [(''Res'', PStr ''KO''), (''Msg'', PStr ''Invalid'')])))
         logged_in
         \<lparr>LoginInput.username = Some ''root'', LoginInput.password = Some ''bad'',
          LoginInput.base_url = Some ''http://other/API''\<rparr>)) = PStr ''abc123''
   \<and> session.base_url (snd (openprodoc_login
         (mock_env (json_response 200 (PDict [(''Res'', PStr ''KO''), (''Msg'', PStr ''Invalid'')])))
         logged_in
         \<lparr>LoginInput.username = Some ''root'', LoginInput.password = Some ''bad'',
          LoginInput.base_url = Some ''http://other/API''\<rparr>)) = ''http://other/API''"
  using login_failure_keeps_token_changes_url
    [of "\<lparr>LoginInput.username = Some ''root'', LoginInput.password = Some ''bad'',
          LoginInput.base_url = Some ''http://other/API''\<rparr>"
        logged_in "''root''" "''bad''" "''http://other/API''"
        "mock_env (json_response 200 (PDict [(''Res'', PStr ''KO''), (''Msg'', PStr ''Invalid'')]))"]
  by (simp add: opt_or_def logged_in_sel mock_env_sel login_accepted_def json_response_def
        is_success_def dict_get_def)

end
